theory Spec2Isabelle
  imports Main
begin

section \<open>The user serializers of recipe-api (app/user/serializers.py)\<close>

text \<open>
  The module holds two serializer classes over three external collaborators:
  \<^item> \<open>authenticate\<close> of django.contrib.auth, which resolves credentials to a user or to
    nothing;
  \<^item> \<open>get_user_model().objects.create_user\<close>, the user manager of the project's own user
    model (app/core, not part of the sources at hand);
  \<^item> the serializer machinery of rest_framework, which reads the declarations of the two
    classes (field lists, \<open>write_only\<close>, \<open>min_length\<close>, \<open>trim_whitespace\<close>).
  The two methods the module defines, \<open>AuthTokenSerializer.validate\<close> and
  \<open>UserSerializer.create\<close>, are embedded from their text, with the collaborators as function
  parameters. A character of a string is a code point below 256, so \<open>length\<close> is
  Python's \<open>len\<close>; every text the tests use is ASCII.
\<close>

subsection \<open>Values of a validated dictionary, errors, collaborator calls\<close>

text \<open>
  The dictionary \<open>attrs\<close> handed to \<open>validate\<close> maps field names to the validated strings;
  \<open>validate\<close> stores the resolved user object in it as well, so a value is either of the two.
\<close>

datatype 'u val = Str string | UserObj 'u

type_synonym 'u attrs = "string \<rightharpoonup> 'u val"

text \<open>\<open>serializers.ValidationError(msg, code=...)\<close>: the message and its code.\<close>

datatype validation_error = ValidationError (detail: string) (code: string)

text \<open>
  One call of \<open>authenticate(request=..., username=..., password=...)\<close> with its three keyword
  arguments. \<open>dict.get\<close> returns \<open>None\<close> for a missing key, hence the options.
\<close>

datatype ('r, 'u) call = Authenticate "'r option" "'u val option" "'u val option"

type_synonym ('r, 'u) authenticate =
  "'r option \<Rightarrow> 'u val option \<Rightarrow> 'u val option \<Rightarrow> 'u option"

subsection \<open>AuthTokenSerializer.validate\<close>

text \<open>
  \<^verbatim>\<open>
  def validate(self, attrs):
      email = attrs.get('email')
      password = attrs.get('password')
      user = authenticate(request=self.context.get('request'),
                          username=email, password=password)
      if not user:
          msg = _('Unable to authenticate, check your credentials')
          raise serializers.ValidationError(msg, code='authentication')
      attrs['user'] = user
      return attrs
  \<close>
  \<open>authenticate\<close> returns a user object or \<open>None\<close>; a model instance is truthy, so
  \<open>not user\<close> is the test for \<open>None\<close>. The result pairs the collaborator calls made, in
  order, with the outcome: \<open>Inl\<close> the raised error, \<open>Inr\<close> the returned dictionary (the
  input dictionary, updated in place, in the source).
\<close>

definition validate ::
  "('r, 'u) authenticate \<Rightarrow> (string \<rightharpoonup> 'r) \<Rightarrow> 'u attrs
     \<Rightarrow> ('r, 'u) call list \<times> (validation_error + 'u attrs)" where
  "validate authenticate context attrs =
     (let email = attrs ''email'';
          password = attrs ''password'';
          user = authenticate (context ''request'') email password;
          calls = [Authenticate (context ''request'') email password]
      in case user of
           None \<Rightarrow>
             (calls, Inl (ValidationError ''Unable to authenticate, check your credentials''
                            ''authentication''))
         | Some u \<Rightarrow> (calls, Inr (attrs(''user'' \<mapsto> UserObj u))))"

subsection \<open>The user model and its manager\<close>

text \<open>
  The framework reads and writes the attributes of a model instance by name
  (\<open>getattr\<close>, \<open>setattr\<close>), so an instance is its attribute dictionary. The stored table
  is the list of saved instances.
\<close>

type_synonym user = "string \<rightharpoonup> string"

type_synonym db = "user list"

type_synonym user_manager = "(string \<rightharpoonup> string) \<Rightarrow> db \<Rightarrow> (user \<times> db) option"

datatype storage_call = CreateUser "(string \<times> string) list"

text \<open>
  \<^verbatim>\<open>
  def create(self, validated_data):
      return get_user_model().objects.create_user(**validated_data)
  \<close>
  \<open>validated_data\<close> is the ordered dictionary of the validated fields; the manager receives
  it as keyword arguments. The manager's result is \<open>None\<close> when it raises. The first
  component is the list of collaborator calls made.
\<close>

definition create ::
  "user_manager \<Rightarrow> (string \<times> string) list \<Rightarrow> db \<Rightarrow> storage_call list \<times> (user \<times> db) option" where
  "create manager validated_data storage =
     ([CreateUser validated_data], manager (map_of validated_data) storage)"

text \<open>
  Modelled from the spec: the manager's \<open>create_user\<close> (app/core/models.py is not among the
  sources), "create user with hashed password": given email, password and name it saves
  and returns an entity whose password attribute is the hash of the submitted password.
  The hasher \<open>make_password\<close> is a parameter. Keyword arguments that lack one of the three
  make it raise.
\<close>

definition create_user :: "(string \<Rightarrow> string) \<Rightarrow> user_manager" where
  "create_user make_password kwargs storage =
     (case (kwargs ''email'', kwargs ''password'', kwargs ''name'') of
        (Some e, Some p, Some n) \<Rightarrow>
          (let u = [''email'' \<mapsto> e, ''password'' \<mapsto> make_password p, ''name'' \<mapsto> n]
           in Some (u, storage @ [u]))
      | _ \<Rightarrow> None)"

text \<open>
  \<open>user.check_password(raw)\<close>, by which the tests verify a stored password: the hasher's
  check of the raw password against the stored password attribute. The hasher's
  \<open>check_password\<close> is a parameter.
\<close>

definition user_check_password :: "(string \<Rightarrow> string \<Rightarrow> bool) \<Rightarrow> user \<Rightarrow> string \<Rightarrow> bool" where
  "user_check_password check_password u raw =
     (case u ''password'' of Some h \<Rightarrow> check_password raw h | None \<Rightarrow> False)"

subsection \<open>Field declarations\<close>

text \<open>
  The keyword arguments of a \<open>serializers.CharField\<close> that the module sets or relies on,
  with the framework's defaults: a field is required, may not be blank, and trims
  surrounding whitespace unless declared otherwise. \<open>validators\<close> are further checks of
  the value (a model field brings its own). Every \<open>CharField\<close> carries the
  \<open>ProhibitNullCharactersValidator\<close>, which refuses a value that holds the null
  character. (It carries the \<open>ProhibitSurrogateCharactersValidator\<close> too; surrogates are
  code points above 255 and do not occur in the strings modelled here.)
\<close>

definition prohibit_null_characters :: "string \<Rightarrow> bool" where
  "prohibit_null_characters v = (CHR 0x00 \<notin> set v)"

record char_field =
  required :: bool
  allow_blank :: bool
  trim_whitespace :: bool
  min_length :: "nat option"
  write_only :: bool
  validators :: "(string \<Rightarrow> bool) list"

definition CharField :: char_field where
  "CharField = \<lparr>required = True, allow_blank = False, trim_whitespace = True,
                 min_length = None, write_only = False,
                 validators = [prohibit_null_characters]\<rparr>"

text \<open>
  \<^verbatim>\<open>
  class AuthTokenSerializer(serializers.Serializer):
      email = serializers.CharField()
      password = serializers.CharField(
          style={'input_type': 'password'}, trim_whitespace=False)
  \<close>
  (\<open>style\<close> only tells the browsable API how to render the input.)
\<close>

definition AuthTokenSerializer_fields :: "(string \<times> char_field) list" where
  "AuthTokenSerializer_fields =
     [(''email'', CharField), (''password'', CharField\<lparr>trim_whitespace := False\<rparr>)]"

text \<open>
  \<^verbatim>\<open>
  class Meta:
      model = get_user_model()
      fields = ('email', 'password', 'name')
      extra_kwargs = {'password': {'write_only': True, 'min_length': 6}}
  \<close>
  A model serializer builds each listed field from the model's field of that name and
  then applies \<open>extra_kwargs\<close>. The model is not among the sources: the field it gives
  for a name is the parameter \<open>mf\<close>.
\<close>

definition Meta_fields :: "string list" where
  "Meta_fields = [''email'', ''password'', ''name'']"

definition Meta_extra_kwargs :: "string \<Rightarrow> char_field \<Rightarrow> char_field" where
  "Meta_extra_kwargs f c =
     (if f = ''password'' then c\<lparr>write_only := True, min_length := Some 6\<rparr> else c)"

definition UserSerializer_fields :: "(string \<Rightarrow> char_field) \<Rightarrow> (string \<times> char_field) list" where
  "UserSerializer_fields mf = map (\<lambda>f. (f, Meta_extra_kwargs f (mf f))) Meta_fields"

text \<open>
  Modelled from the spec: the fields of the user model (app/core/models.py is not among
  the sources). "email uniquely identifies a user", and a create request answers "400 if
  email already exists": the email field carries a uniqueness check against the stored
  users, ahead of the checks every \<open>CharField\<close> has; the spec asks nothing else of the
  model's fields.
\<close>

definition model_field :: "db \<Rightarrow> string \<Rightarrow> char_field" where
  "model_field storage f =
     (if f = ''email''
      then CharField\<lparr>validators :=
             (\<lambda>v. Some v \<notin> set (map (\<lambda>u. u ''email'') storage)) # validators CharField\<rparr>
      else CharField)"

subsection \<open>What the framework does with the declarations\<close>

text \<open>
  \<open>str.strip()\<close> removes leading and trailing whitespace: the characters for which
  \<open>str.isspace\<close> holds, which below 256 are the space, the controls 9 to 13, the
  separators 28 to 31, the next-line control 133 and the no-break space 160.
\<close>

definition is_space :: "char \<Rightarrow> bool" where
  "is_space c = (of_char c \<in> set [9, 10, 11, 12, 13, 28, 29, 30, 31, 32, 133, 160 :: nat])"

definition strip :: "string \<Rightarrow> string" where
  "strip s = rev (dropWhile is_space (rev (dropWhile is_space s)))"

datatype field_error = Required | Blank | MinLength nat | Invalid

text \<open>
  \<open>CharField.run_validation\<close> on the submitted value of one field (\<open>None\<close>: the key is
  absent from the request). An absent key is skipped in a partial update, and is an error
  for a required field otherwise. An empty value, or one that is blank once trimmed, is
  an error unless blanks are allowed. Otherwise the value is trimmed if the field trims,
  and the length and the validators are checked on the result; of several failing checks
  the first is the error kept. \<open>Inr None\<close> is a skipped
  field, \<open>Inr (Some v)\<close> the validated value.
\<close>

fun run_validation :: "bool \<Rightarrow> char_field \<Rightarrow> string option \<Rightarrow> field_error + string option" where
  "run_validation partial c None =
     (if partial then Inr None else if required c then Inl Required else Inr None)"
| "run_validation partial c (Some s) =
     (if s = [] \<or> (trim_whitespace c \<and> strip s = [])
      then (if allow_blank c then Inr (Some []) else Inl Blank)
      else let v = (if trim_whitespace c then strip s else s)
           in case min_length c of
                Some n \<Rightarrow>
                  if length v < n then Inl (MinLength n)
                  else if list_all (\<lambda>check. check v) (validators c) then Inr (Some v)
                  else Inl Invalid
              | None \<Rightarrow>
                  if list_all (\<lambda>check. check v) (validators c) then Inr (Some v)
                  else Inl Invalid)"

text \<open>
  \<open>Serializer.to_internal_value\<close>: every declared field is validated against the request
  data; the errors of all fields are collected, and any error makes the whole validation
  fail with the collected errors. Otherwise the result is the ordered dictionary of the
  validated values. Keys of the request that are not declared fields are ignored.
\<close>

fun field_results ::
  "bool \<Rightarrow> (string \<times> char_field) list \<Rightarrow> (string \<rightharpoonup> string)
     \<Rightarrow> (string \<times> field_error) list \<times> (string \<times> string) list" where
  "field_results partial [] payload = ([], [])"
| "field_results partial ((f, c) # fs) payload =
     (case field_results partial fs payload of
        (errors, ret) \<Rightarrow>
          (case run_validation partial c (payload f) of
             Inl e \<Rightarrow> ((f, e) # errors, ret)
           | Inr None \<Rightarrow> (errors, ret)
           | Inr (Some v) \<Rightarrow> (errors, (f, v) # ret)))"

definition to_internal_value ::
  "bool \<Rightarrow> (string \<times> char_field) list \<Rightarrow> (string \<rightharpoonup> string)
     \<Rightarrow> (string \<times> field_error) list + (string \<times> string) list" where
  "to_internal_value partial declared payload =
     (case field_results partial declared payload of
        (errors, ret) \<Rightarrow> if errors \<noteq> [] then Inl errors else Inr ret)"

text \<open>
  \<open>Serializer.to_representation\<close>: the output dictionary has one entry for every declared
  field that is not write-only, read from the instance's attribute of that name.
\<close>

definition to_representation :: "(string \<times> char_field) list \<Rightarrow> user \<Rightarrow> (string \<rightharpoonup> string)" where
  "to_representation declared instance =
     instance |` set (map fst (filter (\<lambda>(f, c). \<not> write_only c) declared))"

text \<open>
  \<open>UserSerializer\<close> defines no \<open>update\<close>, so it inherits \<open>ModelSerializer.update\<close>:
  "generic framework behavior (partial field assignment)", that is
  \<open>setattr(instance, attr, value)\<close> for every validated entry, then \<open>instance.save()\<close>.
  The result is the saved instance.
\<close>

definition update :: "user \<Rightarrow> (string \<times> string) list \<Rightarrow> user" where
  "update instance validated_data = instance ++ map_of validated_data"

text \<open>
  A failed validation is either the dictionary of field errors or the error that
  \<open>validate\<close> raised, which the framework reports under \<open>non_field_errors\<close>.
\<close>

datatype body_value = Text string | FieldError field_error | NonFieldError validation_error

definition field_error_data :: "(string \<times> field_error) list \<Rightarrow> (string \<rightharpoonup> body_value)" where
  "field_error_data errors = map_of (map (\<lambda>(f, e). (f, FieldError e)) errors)"

text \<open>
  \<open>Serializer.run_validation\<close> of the token serializer: the fields first, then \<open>validate\<close>
  on the dictionary of validated values. The collaborator calls made come first.
\<close>

definition AuthTokenSerializer_run_validation ::
  "('r, 'u) authenticate \<Rightarrow> (string \<rightharpoonup> 'r) \<Rightarrow> (string \<rightharpoonup> string)
     \<Rightarrow> ('r, 'u) call list \<times> ((string \<rightharpoonup> body_value) + 'u attrs)" where
  "AuthTokenSerializer_run_validation authenticate context payload =
     (case to_internal_value False AuthTokenSerializer_fields payload of
        Inl errors \<Rightarrow> ([], Inl (field_error_data errors))
      | Inr ret \<Rightarrow>
          (case validate authenticate context (map_option Str \<circ> map_of ret) of
             (calls, Inl e) \<Rightarrow> (calls, Inl [''non_field_errors'' \<mapsto> NonFieldError e])
           | (calls, Inr attrs) \<Rightarrow> (calls, Inr attrs)))"

subsection \<open>The three endpoints\<close>

text \<open>
  The views (app/user/views.py) are not among the sources; the tests reach the
  serializers only through them. A response is its status code and its data dictionary.
\<close>

datatype http_method = GET | POST | PATCH

record response =
  status_code :: nat
  data :: "string \<rightharpoonup> body_value"

definition text_data :: "(string \<rightharpoonup> string) \<Rightarrow> (string \<rightharpoonup> body_value)" where
  "text_data m = map_option Text \<circ> m"

text \<open>
  Modelled from the spec: the create-user endpoint (app/user/views.py is not among the
  sources). "Create user: request {email, password, name} -> response 201 with
  {email, name} (password excluded); 400 if email already exists or password < 6
  characters", where a validation error comes "before reaching external storage". The
  request data is validated by \<open>UserSerializer\<close>; a failure answers 400 with the field
  errors and leaves storage alone; otherwise \<open>UserSerializer.create\<close> runs and the answer
  is 201 with the representation of the created user. A manager that raises leaves
  storage alone and answers 500. The result holds the storage calls made, the response
  and the storage afterwards.
\<close>

definition create_user_view ::
  "user_manager \<Rightarrow> (string \<Rightarrow> char_field) \<Rightarrow> (string \<rightharpoonup> string) \<Rightarrow> db
     \<Rightarrow> storage_call list \<times> response \<times> db" where
  "create_user_view manager mf payload storage =
     (case to_internal_value False (UserSerializer_fields mf) payload of
        Inl errors \<Rightarrow>
          ([], \<lparr>status_code = 400, data = field_error_data errors\<rparr>, storage)
      | Inr validated_data \<Rightarrow>
          (case create manager validated_data storage of
             (calls, None) \<Rightarrow> (calls, \<lparr>status_code = 500, data = Map.empty\<rparr>, storage)
           | (calls, Some (instance, storage')) \<Rightarrow>
               (calls,
                \<lparr>status_code = 201,
                 data = text_data (to_representation (UserSerializer_fields mf) instance)\<rparr>,
                storage')))"

text \<open>
  Modelled from the spec: the obtain-token endpoint (app/user/views.py is not among the
  sources). "Obtain token: request {email, password} -> response 200 with {token}; 400
  if credentials invalid or user absent; only POST allowed (GET -> 405)". The request
  data is validated by \<open>AuthTokenSerializer\<close> with the request in its context; a failure
  answers 400 with the errors; otherwise the answer is 200 with the token of the user
  that \<open>validate\<close> attached. The token store \<open>token_key\<close> is a parameter. A validated
  dictionary without a user object cannot be answered (500).
\<close>

definition create_token_view ::
  "('r, 'u) authenticate \<Rightarrow> ('u \<Rightarrow> string) \<Rightarrow> http_method \<Rightarrow> 'r \<Rightarrow> (string \<rightharpoonup> string)
     \<Rightarrow> ('r, 'u) call list \<times> response" where
  "create_token_view authenticate token_key method request payload =
     (if method \<noteq> POST then ([], \<lparr>status_code = 405, data = Map.empty\<rparr>)
      else case AuthTokenSerializer_run_validation authenticate [''request'' \<mapsto> request] payload of
             (calls, Inl errors) \<Rightarrow> (calls, \<lparr>status_code = 400, data = errors\<rparr>)
           | (calls, Inr attrs) \<Rightarrow>
               (case attrs ''user'' of
                  Some (UserObj u) \<Rightarrow>
                    (calls, \<lparr>status_code = 200, data = [''token'' \<mapsto> Text (token_key u)]\<rparr>)
                | _ \<Rightarrow> (calls, \<lparr>status_code = 500, data = Map.empty\<rparr>)))"

text \<open>
  Modelled from the spec: the profile endpoint (app/user/views.py is not among the
  sources). "Profile: GET -> 200 {name, email} for authenticated caller only (401 if not
  authenticated); PATCH updates {name, password}; POST not allowed (405)". The caller is
  the user object the framework resolved for the request, if any. GET answers with the
  representation of the caller by \<open>UserSerializer\<close>; PATCH validates the request data as
  a partial update, runs the serializer's \<open>update\<close> on the caller and answers 200 with the
  representation of the result. The second component is the instance saved, if any.
\<close>

definition me_view ::
  "(string \<Rightarrow> char_field) \<Rightarrow> http_method \<Rightarrow> user option \<Rightarrow> (string \<rightharpoonup> string)
     \<Rightarrow> response \<times> user option" where
  "me_view mf method request_user payload =
     (case request_user of
        None \<Rightarrow> (\<lparr>status_code = 401, data = Map.empty\<rparr>, None)
      | Some instance \<Rightarrow>
          (case method of
             GET \<Rightarrow>
               (\<lparr>status_code = 200,
                 data = text_data (to_representation (UserSerializer_fields mf) instance)\<rparr>,
                None)
           | POST \<Rightarrow> (\<lparr>status_code = 405, data = Map.empty\<rparr>, None)
           | PATCH \<Rightarrow>
               (case to_internal_value True (UserSerializer_fields mf) payload of
                  Inl errors \<Rightarrow>
                    (\<lparr>status_code = 400, data = field_error_data errors\<rparr>, None)
                | Inr validated_data \<Rightarrow>
                    (let saved = update instance validated_data
                     in (\<lparr>status_code = 200,
                          data = text_data (to_representation (UserSerializer_fields mf) saved)\<rparr>,
                         Some saved)))))"

subsection \<open>Sample data of the test suite\<close>

text \<open>
  The tests create the user test@gmail.com with the password testpw1. The sample hasher
  marks a hash with a prefix and accepts exactly its own hashes; the sample
  \<open>authenticate\<close> resolves the credentials of that one user.
\<close>

definition sample_make_password :: "string \<Rightarrow> string" where
  "sample_make_password p = ''hash$'' @ p"

definition sample_check_password :: "string \<Rightarrow> string \<Rightarrow> bool" where
  "sample_check_password p h = (h = sample_make_password p)"

definition sample_user :: user where
  "sample_user = [''email'' \<mapsto> ''test@gmail.com'',
                  ''password'' \<mapsto> sample_make_password ''testpw1'',
                  ''name'' \<mapsto> ''Testname'']"

definition sample_authenticate :: "(unit, user) authenticate" where
  "sample_authenticate request username password =
     (if username = Some (Str ''test@gmail.com'') \<and> password = Some (Str ''testpw1'')
      then Some sample_user else None)"

section \<open>Properties\<close>

subsection \<open>Trimming\<close>

lemma strip_length: "length (strip s) \<le> length s"
  unfolding strip_def
  by (metis length_dropWhile_le length_rev order_trans)

subsection \<open>Token validation\<close>

text \<open>
  C2. Whenever \<open>authenticate\<close> resolves a user for the request of the context, the email
  of \<open>attrs\<close> as username and the password of \<open>attrs\<close>, \<open>validate\<close> makes exactly that one
  call to it, stores the resolved user under the key \<open>user\<close> of \<open>attrs\<close> and returns the
  dictionary.
\<close>

theorem validate_success:
  assumes "authenticate (context ''request'') (attrs ''email'') (attrs ''password'') = Some u"
  shows "validate authenticate context attrs =
           ([Authenticate (context ''request'') (attrs ''email'') (attrs ''password'')],
            Inr (attrs(''user'' \<mapsto> UserObj u)))"
  using assms by (simp add: validate_def)

theorem validate_success_witness:
  "sample_authenticate ([''request'' \<mapsto> ()] ''request'')
       ([''email'' \<mapsto> Str ''test@gmail.com'', ''password'' \<mapsto> Str ''testpw1''] ''email'')
       ([''email'' \<mapsto> Str ''test@gmail.com'', ''password'' \<mapsto> Str ''testpw1''] ''password'')
     = Some sample_user
   \<and> validate sample_authenticate [''request'' \<mapsto> ()]
       [''email'' \<mapsto> Str ''test@gmail.com'', ''password'' \<mapsto> Str ''testpw1'']
     = ([Authenticate (Some ()) (Some (Str ''test@gmail.com'')) (Some (Str ''testpw1''))],
        Inr [''email'' \<mapsto> Str ''test@gmail.com'', ''password'' \<mapsto> Str ''testpw1'',
             ''user'' \<mapsto> UserObj sample_user])"
proof -
  have h: "sample_authenticate ([''request'' \<mapsto> ()] ''request'')
       ([''email'' \<mapsto> Str ''test@gmail.com'', ''password'' \<mapsto> Str ''testpw1''] ''email'')
       ([''email'' \<mapsto> Str ''test@gmail.com'', ''password'' \<mapsto> Str ''testpw1''] ''password'')
     = Some sample_user"
    by (simp add: sample_authenticate_def)
  from validate_success [of sample_authenticate "[''request'' \<mapsto> ()]"
      "[''email'' \<mapsto> Str ''test@gmail.com'', ''password'' \<mapsto> Str ''testpw1'']" sample_user] h
  show ?thesis by simp
qed

text \<open>
  C9. Whenever \<open>validate\<close> returns, the returned dictionary is the input with the resolved
  user stored under the key \<open>user\<close>: the entries for \<open>email\<close> and \<open>password\<close>, and every
  entry under a key other than \<open>user\<close>, are those of the input, and the keys are those of
  the input together with \<open>user\<close>.
\<close>

theorem validate_frame:
  assumes "validate authenticate context attrs = (calls, Inr ret)"
  shows "(\<exists>u. authenticate (context ''request'') (attrs ''email'') (attrs ''password'') = Some u
              \<and> ret = attrs(''user'' \<mapsto> UserObj u))
         \<and> ret ''email'' = attrs ''email''
         \<and> ret ''password'' = attrs ''password''
         \<and> (\<forall>k. k \<noteq> ''user'' \<longrightarrow> ret k = attrs k)
         \<and> dom ret = insert ''user'' (dom attrs)"
  using assms by (auto simp: validate_def Let_def split: option.splits)

lemma sample_validate:
  "validate sample_authenticate [''request'' \<mapsto> ()]
       [''email'' \<mapsto> Str ''test@gmail.com'', ''password'' \<mapsto> Str ''testpw1'']
     = ([Authenticate (Some ()) (Some (Str ''test@gmail.com'')) (Some (Str ''testpw1''))],
        Inr [''email'' \<mapsto> Str ''test@gmail.com'', ''password'' \<mapsto> Str ''testpw1'',
             ''user'' \<mapsto> UserObj sample_user])"
  by (simp add: validate_def sample_authenticate_def Let_def)

theorem validate_frame_witness:
  "validate sample_authenticate [''request'' \<mapsto> ()]
       [''email'' \<mapsto> Str ''test@gmail.com'', ''password'' \<mapsto> Str ''testpw1'']
     = ([Authenticate (Some ()) (Some (Str ''test@gmail.com'')) (Some (Str ''testpw1''))],
        Inr [''email'' \<mapsto> Str ''test@gmail.com'', ''password'' \<mapsto> Str ''testpw1'',
             ''user'' \<mapsto> UserObj sample_user])
   \<and> [''email'' \<mapsto> Str ''test@gmail.com'', ''password'' \<mapsto> Str ''testpw1'',
             ''user'' \<mapsto> UserObj sample_user] ''email'' = Some (Str ''test@gmail.com'')
   \<and> [''email'' \<mapsto> Str ''test@gmail.com'', ''password'' \<mapsto> Str ''testpw1'',
             ''user'' \<mapsto> UserObj sample_user] ''name'' = None
   \<and> dom [''email'' \<mapsto> Str ''test@gmail.com'', ''password'' \<mapsto> Str ''testpw1'',
             ''user'' \<mapsto> UserObj sample_user] = {''user'', ''email'', ''password''}"
  using validate_frame [OF sample_validate] sample_validate by auto

subsection \<open>Token requests\<close>

text \<open>
  The field validation of the token serializer: the email is required, may not be blank,
  is trimmed and may not hold the null character; the password is required, may not be
  empty, may not hold the null character and is kept as submitted.
\<close>

lemma token_field_missing:
  "run_validation False CharField None = Inl Required"
  "run_validation False (CharField\<lparr>trim_whitespace := False\<rparr>) None = Inl Required"
  by (simp_all add: CharField_def)

lemma token_email_field:
  "run_validation False CharField (Some e) =
     (if strip e = [] then Inl Blank
      else if prohibit_null_characters (strip e) then Inr (Some (strip e))
      else Inl Invalid)"
  by (auto simp: CharField_def strip_def)

lemma token_password_field:
  "run_validation False (CharField\<lparr>trim_whitespace := False\<rparr>) (Some p) =
     (if p = [] then Inl Blank
      else if prohibit_null_characters p then Inr (Some p)
      else Inl Invalid)"
  by (auto simp: CharField_def)

lemma token_to_internal_value:
  "to_internal_value False AuthTokenSerializer_fields payload =
     (case run_validation False CharField (payload ''email'') of
        Inl a \<Rightarrow>
          (case run_validation False (CharField\<lparr>trim_whitespace := False\<rparr>) (payload ''password'') of
             Inl b \<Rightarrow> Inl [(''email'', a), (''password'', b)]
           | Inr pv \<Rightarrow> Inl [(''email'', a)])
      | Inr ev \<Rightarrow>
          (case run_validation False (CharField\<lparr>trim_whitespace := False\<rparr>) (payload ''password'') of
             Inl b \<Rightarrow> Inl [(''password'', b)]
           | Inr pv \<Rightarrow>
               Inr ((case ev of None \<Rightarrow> [] | Some v \<Rightarrow> [(''email'', v)])
                    @ (case pv of None \<Rightarrow> [] | Some v \<Rightarrow> [(''password'', v)]))))"
  by (simp add: to_internal_value_def AuthTokenSerializer_fields_def
        del: run_validation.simps split: sum.splits option.splits prod.splits)

lemma token_valid:
  assumes "payload ''email'' = Some e" "payload ''password'' = Some p"
    and "strip e \<noteq> []" "p \<noteq> []"
    and "prohibit_null_characters (strip e)" "prohibit_null_characters p"
  shows "to_internal_value False AuthTokenSerializer_fields payload
           = Inr [(''email'', strip e), (''password'', p)]"
  using assms
  by (simp add: token_to_internal_value token_email_field token_password_field
        del: run_validation.simps)

lemma token_validated:
  assumes "to_internal_value False AuthTokenSerializer_fields payload = Inr ret"
  shows "(\<forall>p. payload ''password'' = Some p \<longrightarrow> map_of ret ''password'' = Some p)
       \<and> (\<forall>e. payload ''email'' = Some e \<longrightarrow> map_of ret ''email'' = Some (strip e))"
proof (cases "payload ''email''")
  case None
  then show ?thesis
    using assms
    by (simp add: token_to_internal_value token_field_missing del: run_validation.simps
          split: sum.splits)
next
  case e: (Some e)
  show ?thesis
  proof (cases "payload ''password''")
    case None
    then show ?thesis
      using assms e
      by (simp add: token_to_internal_value token_field_missing token_email_field
            del: run_validation.simps split: if_splits)
  next
    case (Some p)
    then show ?thesis
      using assms e
      by (auto simp: token_to_internal_value token_email_field token_password_field
            simp del: run_validation.simps split: if_splits)
  qed
qed

lemma token_valid_pair:
  assumes "strip e \<noteq> []" "p \<noteq> []"
    and "prohibit_null_characters (strip e)" "prohibit_null_characters p"
  shows "to_internal_value False AuthTokenSerializer_fields [''email'' \<mapsto> e, ''password'' \<mapsto> p]
           = Inr [(''email'', strip e), (''password'', p)]"
  using assms by (intro token_valid) simp_all

lemma token_null_password:
  assumes "payload ''password'' = Some p" "\<not> prohibit_null_characters p"
  shows "\<exists>errors. to_internal_value False AuthTokenSerializer_fields payload = Inl errors"
  using assms
  by (auto simp: token_to_internal_value token_password_field
        simp del: run_validation.simps split: sum.splits)

lemma token_errors_no_token:
  assumes "to_internal_value False AuthTokenSerializer_fields payload = Inl errors"
  shows "field_error_data errors ''token'' = None"
  using assms
  by (auto simp: token_to_internal_value field_error_data_def
        simp del: run_validation.simps split: sum.splits)

text \<open>
  C1. \<open>validate\<close> raises exactly when \<open>authenticate\<close> resolves no user for the request of
  the context and the email and password of \<open>attrs\<close>, and the error it raises then carries
  the message "Unable to authenticate, check your credentials" and the code
  "authentication". A token request (POST) whose email, as trimmed by its field, and
  password resolve to no user is answered with status 400 and data without a \<open>token\<close>
  entry.
\<close>

theorem validate_raises_iff:
  "(authenticate (context ''request'') (attrs ''email'') (attrs ''password'') = None \<longrightarrow>
      snd (validate authenticate context attrs)
        = Inl (ValidationError ''Unable to authenticate, check your credentials''
                 ''authentication''))
   \<and> (\<forall>err. snd (validate authenticate context attrs) = Inl err \<longrightarrow>
         authenticate (context ''request'') (attrs ''email'') (attrs ''password'') = None)
   \<and> (payload ''email'' = Some e \<and> payload ''password'' = Some p
        \<and> authenticate (Some request) (Some (Str (strip e))) (Some (Str p)) = None \<longrightarrow>
        status_code (snd (create_token_view authenticate token_key POST request payload)) = 400
        \<and> data (snd (create_token_view authenticate token_key POST request payload)) ''token'' = None)"
proof (intro conjI impI allI)
  assume "authenticate (context ''request'') (attrs ''email'') (attrs ''password'') = None"
  then show "snd (validate authenticate context attrs)
        = Inl (ValidationError ''Unable to authenticate, check your credentials''
                 ''authentication'')"
    by (simp add: validate_def)
next
  fix err
  assume "snd (validate authenticate context attrs) = Inl err"
  then show "authenticate (context ''request'') (attrs ''email'') (attrs ''password'') = None"
    by (simp add: validate_def Let_def split: option.splits)
next
  assume a: "payload ''email'' = Some e \<and> payload ''password'' = Some p
        \<and> authenticate (Some request) (Some (Str (strip e))) (Some (Str p)) = None"
  have "status_code (snd (create_token_view authenticate token_key POST request payload)) = 400
        \<and> data (snd (create_token_view authenticate token_key POST request payload)) ''token'' = None"
  proof (cases "to_internal_value False AuthTokenSerializer_fields payload")
    case (Inl errors)
    then show ?thesis
      by (simp add: create_token_view_def AuthTokenSerializer_run_validation_def
            token_errors_no_token)
  next
    case (Inr ret)
    from token_validated [OF Inr] a
    have "map_of ret ''password'' = Some p" "map_of ret ''email'' = Some (strip e)"
      by simp_all
    with a Inr show ?thesis
      by (simp add: create_token_view_def AuthTokenSerializer_run_validation_def validate_def)
  qed
  then show "status_code (snd (create_token_view authenticate token_key POST request payload)) = 400"
    and "data (snd (create_token_view authenticate token_key POST request payload)) ''token'' = None"
    by simp_all
qed

theorem validate_raises_iff_witness:
  "sample_authenticate ([''request'' \<mapsto> ()] ''request'')
       ([''email'' \<mapsto> Str ''test@gmail.com'', ''password'' \<mapsto> Str ''wrongpw''] ''email'')
       ([''email'' \<mapsto> Str ''test@gmail.com'', ''password'' \<mapsto> Str ''wrongpw''] ''password'')
     = None
   \<and> snd (validate sample_authenticate [''request'' \<mapsto> ()]
          [''email'' \<mapsto> Str ''test@gmail.com'', ''password'' \<mapsto> Str ''wrongpw''])
       = Inl (ValidationError ''Unable to authenticate, check your credentials''
                ''authentication'')
   \<and> status_code (snd (create_token_view sample_authenticate (\<lambda>u. ''key'') POST ()
          [''email'' \<mapsto> ''test@gmail.com'', ''password'' \<mapsto> ''wrongpw''])) = 400
   \<and> data (snd (create_token_view sample_authenticate (\<lambda>u. ''key'') POST ()
          [''email'' \<mapsto> ''test@gmail.com'', ''password'' \<mapsto> ''wrongpw''])) ''token'' = None
   \<and> status_code (snd (create_token_view sample_authenticate (\<lambda>u. ''key'') POST ()
          [''email'' \<mapsto> ''test@gmail.com'', ''password'' \<mapsto> ''testpw1''])) = 200
   \<and> data (snd (create_token_view sample_authenticate (\<lambda>u. ''key'') POST ()
          [''email'' \<mapsto> ''test@gmail.com'', ''password'' \<mapsto> ''testpw1''])) ''token''
       = Some (Text ''key'')"
  using validate_raises_iff [of sample_authenticate "[''request'' \<mapsto> ()]"
      "[''email'' \<mapsto> Str ''test@gmail.com'', ''password'' \<mapsto> Str ''wrongpw'']"
      "[''email'' \<mapsto> ''test@gmail.com'', ''password'' \<mapsto> ''wrongpw'']"
      "''test@gmail.com''" "''wrongpw''" "()" "\<lambda>u. ''key''"]
  by (simp add: create_token_view_def AuthTokenSerializer_run_validation_def
        token_valid_pair prohibit_null_characters_def validate_def sample_authenticate_def
        strip_def is_space_def Let_def)

text \<open>
  C10. The password of a token request is not trimmed. Every call the token serializer
  makes to \<open>authenticate\<close> carries the password exactly as submitted; a request whose
  email is not blank and whose password is not empty, neither holding the null
  character, makes that call, with the trimmed email and the verbatim password; two such
  requests that differ in the password only (for example in surrounding whitespace) make
  different calls; and a password that holds the null character is refused by its field,
  with no call.
\<close>

theorem password_not_trimmed:
  "(payload ''password'' = Some p \<longrightarrow>
      (\<forall>c \<in> set (fst (AuthTokenSerializer_run_validation authenticate context payload)).
         \<exists>username. c = Authenticate (context ''request'') username (Some (Str p))))
   \<and> (payload ''email'' = Some e \<and> strip e \<noteq> [] \<and> p \<noteq> []
        \<and> prohibit_null_characters (strip e) \<and> prohibit_null_characters p \<longrightarrow>
        fst (AuthTokenSerializer_run_validation authenticate context (payload(''password'' \<mapsto> p)))
          = [Authenticate (context ''request'') (Some (Str (strip e))) (Some (Str p))])
   \<and> (payload ''email'' = Some e \<and> strip e \<noteq> [] \<and> p \<noteq> [] \<and> p' \<noteq> []
        \<and> prohibit_null_characters (strip e) \<and> prohibit_null_characters p
        \<and> prohibit_null_characters p' \<and> p \<noteq> p' \<longrightarrow>
        fst (AuthTokenSerializer_run_validation authenticate context (payload(''password'' \<mapsto> p)))
          \<noteq> fst (AuthTokenSerializer_run_validation authenticate context (payload(''password'' \<mapsto> p'))))
   \<and> (payload ''password'' = Some p \<and> \<not> prohibit_null_characters p \<longrightarrow>
        fst (AuthTokenSerializer_run_validation authenticate context payload) = [])"
proof -
  have calls: "fst (AuthTokenSerializer_run_validation authenticate context (payload(''password'' \<mapsto> q)))
          = [Authenticate (context ''request'') (Some (Str (strip e))) (Some (Str q))]"
    if "payload ''email'' = Some e" "strip e \<noteq> []" "q \<noteq> []"
      "prohibit_null_characters (strip e)" "prohibit_null_characters q" for q
  proof -
    have "to_internal_value False AuthTokenSerializer_fields (payload(''password'' \<mapsto> q))
            = Inr [(''email'', strip e), (''password'', q)]"
      using that by (intro token_valid) simp_all
    then show ?thesis
      by (simp add: AuthTokenSerializer_run_validation_def validate_def Let_def
            split: option.splits)
  qed
  have verbatim: "\<forall>c \<in> set (fst (AuthTokenSerializer_run_validation authenticate context payload)).
         \<exists>username. c = Authenticate (context ''request'') username (Some (Str p))"
    if pw: "payload ''password'' = Some p"
  proof (cases "to_internal_value False AuthTokenSerializer_fields payload")
    case (Inl errors)
    then show ?thesis by (simp add: AuthTokenSerializer_run_validation_def)
  next
    case (Inr ret)
    from token_validated [OF Inr] pw have "map_of ret ''password'' = Some p" by simp
    with Inr show ?thesis
      by (simp add: AuthTokenSerializer_run_validation_def validate_def Let_def
            split: option.splits)
  qed
  have refused: "fst (AuthTokenSerializer_run_validation authenticate context payload) = []"
    if "payload ''password'' = Some p" "\<not> prohibit_null_characters p"
    using that token_null_password [of payload p]
    by (auto simp: AuthTokenSerializer_run_validation_def)
  from calls [of p] calls [of p'] verbatim refused show ?thesis by auto
qed

theorem password_not_trimmed_witness:
  "[''email'' \<mapsto> '' test@gmail.com'', ''password'' \<mapsto> ''testpw1 ''] ''password'' = Some ''testpw1 ''
   \<and> strip '' test@gmail.com'' = ''test@gmail.com''
   \<and> prohibit_null_characters ''test@gmail.com''
   \<and> prohibit_null_characters ''testpw1 ''
   \<and> prohibit_null_characters ''testpw1''
   \<and> ''testpw1 '' \<noteq> ''testpw1''
   \<and> AuthTokenSerializer_run_validation sample_authenticate [''request'' \<mapsto> ()]
        [''email'' \<mapsto> '' test@gmail.com'', ''password'' \<mapsto> ''testpw1 '']
      = ([Authenticate (Some ()) (Some (Str ''test@gmail.com'')) (Some (Str ''testpw1 ''))],
         Inl [''non_field_errors'' \<mapsto> NonFieldError
                (ValidationError ''Unable to authenticate, check your credentials''
                   ''authentication'')])
   \<and> fst (AuthTokenSerializer_run_validation sample_authenticate [''request'' \<mapsto> ()]
        [''email'' \<mapsto> '' test@gmail.com'', ''password'' \<mapsto> ''testpw1''])
      = [Authenticate (Some ()) (Some (Str ''test@gmail.com'')) (Some (Str ''testpw1''))]
   \<and> \<not> prohibit_null_characters [CHR ''p'', CHR ''w'', CHR 0x00, CHR ''x'']
   \<and> fst (AuthTokenSerializer_run_validation sample_authenticate [''request'' \<mapsto> ()]
        [''email'' \<mapsto> '' test@gmail.com'', ''password'' \<mapsto> [CHR ''p'', CHR ''w'', CHR 0x00, CHR ''x'']])
      = []"
proof -
  have s: "strip '' test@gmail.com'' = ''test@gmail.com''"
    by (simp add: strip_def is_space_def)
  have n: "prohibit_null_characters ''test@gmail.com''" "prohibit_null_characters ''testpw1 ''"
    "prohibit_null_characters ''testpw1''"
    "\<not> prohibit_null_characters [CHR ''p'', CHR ''w'', CHR 0x00, CHR ''x'']"
    by (simp_all add: prohibit_null_characters_def)
  from password_not_trimmed [of
      "[''email'' \<mapsto> '' test@gmail.com'', ''password'' \<mapsto> ''testpw1 '']" "''testpw1 ''"
      sample_authenticate "[''request'' \<mapsto> ()]" "'' test@gmail.com''" "''testpw1''"]
    password_not_trimmed [of
      "[''email'' \<mapsto> '' test@gmail.com'', ''password'' \<mapsto> [CHR ''p'', CHR ''w'', CHR 0x00, CHR ''x'']]"
      "[CHR ''p'', CHR ''w'', CHR 0x00, CHR ''x'']"
      sample_authenticate "[''request'' \<mapsto> ()]" "'' test@gmail.com''" "''testpw1''"]
  show ?thesis
    by (simp add: s n AuthTokenSerializer_run_validation_def token_valid_pair validate_def
          sample_authenticate_def Let_def)
qed

subsection \<open>The user serializer\<close>

lemma user_fields_unfold:
  "UserSerializer_fields mf =
     [(''email'', mf ''email''), (''password'', Meta_extra_kwargs ''password'' (mf ''password'')),
      (''name'', mf ''name'')]"
  by (simp add: UserSerializer_fields_def Meta_fields_def Meta_extra_kwargs_def)

lemmas eval_defs = create_user_view_def to_internal_value_def user_fields_unfold
  field_error_data_def Meta_extra_kwargs_def model_field_def CharField_def strip_def is_space_def
  create_def create_user_def to_representation_def text_data_def sample_make_password_def
  sample_user_def restrict_map_def prohibit_null_characters_def

lemma representation_no_password:
  "to_representation (UserSerializer_fields mf) instance ''password'' = None"
  by (simp add: to_representation_def user_fields_unfold Meta_extra_kwargs_def restrict_map_def)

lemma representation_email_name:
  assumes "\<not> write_only (mf ''email'')" "\<not> write_only (mf ''name'')"
  shows "to_representation (UserSerializer_fields mf) instance = instance |` {''email'', ''name''}"
  using assms
  by (auto simp: to_representation_def user_fields_unfold Meta_extra_kwargs_def restrict_map_def)

lemma text_data_empty: "text_data Map.empty = Map.empty"
  by (rule ext) (simp add: text_data_def)

lemma text_data_upd: "text_data (m(k \<mapsto> v)) = (text_data m)(k \<mapsto> Text v)"
  by (rule ext) (simp add: text_data_def)

lemma text_data_no_password:
  "text_data (to_representation (UserSerializer_fields mf) instance) ''password'' = None"
  by (simp add: text_data_def representation_no_password)

text \<open>
  C6. The representation \<open>UserSerializer\<close> gives of a user never has a \<open>password\<close> entry,
  whatever the model's fields are; with model fields for email and name that are not
  write-only (a model gives no write-only field), the representation is the user's
  attributes restricted to \<open>email\<close> and \<open>name\<close>. So it is on every operation: a 201
  answer of the create-user endpoint and a 200 answer of the profile endpoint, to GET
  or to PATCH, have no \<open>password\<close> entry.
\<close>

theorem password_write_only:
  "to_representation (UserSerializer_fields mf) instance ''password'' = None
   \<and> (\<not> write_only (mf ''email'') \<and> \<not> write_only (mf ''name'') \<longrightarrow>
        to_representation (UserSerializer_fields mf) instance = instance |` {''email'', ''name''})
   \<and> (status_code (fst (snd (create_user_view manager mf payload storage))) = 201 \<longrightarrow>
        data (fst (snd (create_user_view manager mf payload storage))) ''password'' = None)
   \<and> (status_code (fst (me_view mf verb caller payload')) = 200 \<longrightarrow>
        data (fst (me_view mf verb caller payload')) ''password'' = None)"
proof (intro conjI impI)
  show "to_representation (UserSerializer_fields mf) instance ''password'' = None"
    by (rule representation_no_password)
next
  assume "\<not> write_only (mf ''email'') \<and> \<not> write_only (mf ''name'')"
  then show "to_representation (UserSerializer_fields mf) instance = instance |` {''email'', ''name''}"
    by (simp add: representation_email_name)
next
  assume a: "status_code (fst (snd (create_user_view manager mf payload storage))) = 201"
  show "data (fst (snd (create_user_view manager mf payload storage))) ''password'' = None"
  proof (cases "to_internal_value False (UserSerializer_fields mf) payload")
    case (Inl errors)
    with a show ?thesis by (simp add: create_user_view_def)
  next
    case (Inr vd)
    with a show ?thesis
      by (cases "manager (map_of vd) storage")
         (auto simp: create_user_view_def create_def text_data_no_password)
  qed
next
  assume a: "status_code (fst (me_view mf verb caller payload')) = 200"
  show "data (fst (me_view mf verb caller payload')) ''password'' = None"
  proof (cases caller)
    case None
    with a show ?thesis by (simp add: me_view_def)
  next
    case (Some inst)
    show ?thesis
    proof (cases verb)
      case GET
      with Some show ?thesis by (simp add: me_view_def text_data_no_password)
    next
      case POST
      with Some a show ?thesis by (simp add: me_view_def)
    next
      case PATCH
      with Some a show ?thesis
        by (cases "to_internal_value True (UserSerializer_fields mf) payload'")
           (simp_all add: me_view_def Let_def text_data_no_password)
    qed
  qed
qed


theorem password_write_only_witness:
  "to_representation (UserSerializer_fields (model_field [])) sample_user ''password'' = None
   \<and> \<not> write_only (model_field [] ''email'') \<and> \<not> write_only (model_field [] ''name'')
   \<and> to_representation (UserSerializer_fields (model_field [])) sample_user ''email''
        = Some ''test@gmail.com''
   \<and> to_representation (UserSerializer_fields (model_field [])) sample_user ''name''
        = Some ''Testname''
   \<and> sample_user ''password'' = Some ''hash$testpw1''
   \<and> status_code (fst (snd (create_user_view (create_user sample_make_password) (model_field [])
        [''email'' \<mapsto> ''test@gmail.com'', ''password'' \<mapsto> ''testpw1'', ''name'' \<mapsto> ''test_name'']
        []))) = 201
   \<and> data (fst (snd (create_user_view (create_user sample_make_password) (model_field [])
        [''email'' \<mapsto> ''test@gmail.com'', ''password'' \<mapsto> ''testpw1'', ''name'' \<mapsto> ''test_name'']
        []))) ''password'' = None
   \<and> status_code (fst (me_view (model_field []) GET (Some sample_user) Map.empty)) = 200
   \<and> data (fst (me_view (model_field []) GET (Some sample_user) Map.empty)) ''password'' = None"
  using password_write_only [of "model_field []" sample_user "create_user sample_make_password"
      "[''email'' \<mapsto> ''test@gmail.com'', ''password'' \<mapsto> ''testpw1'', ''name'' \<mapsto> ''test_name'']"
      "[]" GET "Some sample_user" Map.empty]
  by (simp add: eval_defs me_view_def Let_def)


text \<open>
  The password field of \<open>UserSerializer\<close> rejects a value of fewer than 6 characters:
  trimming only shortens it, so it is either blank or too short.
\<close>

lemma password_field_short:
  assumes "length p < 6" "\<not> allow_blank c"
  shows "run_validation partial (Meta_extra_kwargs ''password'' c) (Some p) = Inl Blank
       \<or> run_validation partial (Meta_extra_kwargs ''password'' c) (Some p) = Inl (MinLength 6)"
proof -
  have "length (strip p) < 6" using strip_length [of p] assms(1) by simp
  with assms show ?thesis by (auto simp: Meta_extra_kwargs_def Let_def)
qed

text \<open>
  A rejected password makes the create-user request fail with status 400 whatever the
  other fields do, with no storage call and storage unchanged.
\<close>

lemma user_create_rejected:
  assumes "run_validation False (Meta_extra_kwargs ''password'' (mf ''password''))
             (payload ''password'') = Inl pe"
  shows "\<exists>errors. create_user_view manager mf payload storage
                     = ([], \<lparr>status_code = 400, data = errors\<rparr>, storage)
                 \<and> errors ''password'' = Some (FieldError pe)"
proof (cases "run_validation False (mf ''email'') (payload ''email'')")
  case (Inl ee)
  then show ?thesis
    using assms
    by (cases "run_validation False (mf ''name'') (payload ''name'')")
       (simp_all add: create_user_view_def to_internal_value_def user_fields_unfold
          field_error_data_def Meta_extra_kwargs_def
          del: run_validation.simps split: option.splits)
next
  case (Inr ev)
  then show ?thesis
    using assms
    by (cases "run_validation False (mf ''name'') (payload ''name'')")
       (simp_all add: create_user_view_def to_internal_value_def user_fields_unfold
          field_error_data_def Meta_extra_kwargs_def
          del: run_validation.simps split: option.splits)
qed

text \<open>
  C3. A create-user request whose password has fewer than 6 characters is answered with
  status 400 and a field error for \<open>password\<close>; no call to the storage collaborator is
  made and storage is unchanged, so no user is persisted. (The model's password field
  does not allow blanks; the model is not among the sources, hence the hypothesis.)
\<close>

theorem password_too_short:
  assumes "payload ''password'' = Some p" and "length p < 6"
    and "\<not> allow_blank (mf ''password'')"
  shows "\<exists>errors. create_user_view manager mf payload storage
                     = ([], \<lparr>status_code = 400, data = errors\<rparr>, storage)
                 \<and> (errors ''password'' = Some (FieldError Blank)
                      \<or> errors ''password'' = Some (FieldError (MinLength 6)))"
proof -
  from password_field_short [OF assms(2,3), of False]
  obtain pe where pe: "run_validation False (Meta_extra_kwargs ''password'' (mf ''password''))
             (payload ''password'') = Inl pe" and kind: "pe = Blank \<or> pe = MinLength 6"
    unfolding assms(1) by blast
  from user_create_rejected [of mf payload pe manager storage] pe kind show ?thesis by blast
qed

theorem password_too_short_witness:
  "[''email'' \<mapsto> ''test1@gmail.com'', ''password'' \<mapsto> ''short'', ''name'' \<mapsto> ''test_name'']
     ''password'' = Some ''short''
   \<and> length ''short'' < 6
   \<and> \<not> allow_blank (model_field [] ''password'')
   \<and> fst (create_user_view (create_user sample_make_password) (model_field [])
        [''email'' \<mapsto> ''test1@gmail.com'', ''password'' \<mapsto> ''short'', ''name'' \<mapsto> ''test_name'']
        []) = []
   \<and> status_code (fst (snd (create_user_view (create_user sample_make_password) (model_field [])
        [''email'' \<mapsto> ''test1@gmail.com'', ''password'' \<mapsto> ''short'', ''name'' \<mapsto> ''test_name'']
        []))) = 400
   \<and> data (fst (snd (create_user_view (create_user sample_make_password) (model_field [])
        [''email'' \<mapsto> ''test1@gmail.com'', ''password'' \<mapsto> ''short'', ''name'' \<mapsto> ''test_name'']
        []))) ''password'' = Some (FieldError (MinLength 6))
   \<and> snd (snd (create_user_view (create_user sample_make_password) (model_field [])
        [''email'' \<mapsto> ''test1@gmail.com'', ''password'' \<mapsto> ''short'', ''name'' \<mapsto> ''test_name'']
        [])) = []"
  using password_too_short [of
      "[''email'' \<mapsto> ''test1@gmail.com'', ''password'' \<mapsto> ''short'', ''name'' \<mapsto> ''test_name'']"
      "''short''" "model_field []" "create_user sample_make_password" "[]"]
  by (simp add: eval_defs)

subsection \<open>Creating a user\<close>







text \<open>
  A rejected email makes the create-user request fail with status 400 whatever the
  other fields do, with no storage call and storage unchanged.
\<close>

lemma user_create_rejected_email:
  assumes "run_validation False (mf ''email'') (payload ''email'') = Inl ee"
  shows "\<exists>errors. create_user_view manager mf payload storage
                     = ([], \<lparr>status_code = 400, data = errors\<rparr>, storage)
                 \<and> errors ''email'' = Some (FieldError ee)"
  using assms
  by (cases "run_validation False (Meta_extra_kwargs ''password'' (mf ''password''))
               (payload ''password'')";
      cases "run_validation False (mf ''name'') (payload ''name'')")
     (simp_all add: create_user_view_def to_internal_value_def user_fields_unfold
        field_error_data_def del: run_validation.simps split: option.splits)

text \<open>
  C7. A create-user request whose email (as the serializer reads it, that is trimmed) is
  the email of a stored user is answered with status 400 and a field error for \<open>email\<close>;
  no call to the storage collaborator is made and storage is unchanged, so no duplicate
  is created.
\<close>

theorem duplicate_email_rejected:
  assumes "payload ''email'' = Some e"
    and "Some (strip e) \<in> set (map (\<lambda>u. u ''email'') storage)"
  shows "\<exists>errors. create_user_view manager (model_field storage) payload storage
                     = ([], \<lparr>status_code = 400, data = errors\<rparr>, storage)
                 \<and> (errors ''email'' = Some (FieldError Blank)
                      \<or> errors ''email'' = Some (FieldError Invalid))"
proof -
  have "run_validation False (model_field storage ''email'') (payload ''email'') = Inl Blank
      \<or> run_validation False (model_field storage ''email'') (payload ''email'') = Inl Invalid"
    using assms by (auto simp: model_field_def CharField_def Let_def)
  then obtain ee where ee: "run_validation False (model_field storage ''email'') (payload ''email'')
       = Inl ee" and kind: "ee = Blank \<or> ee = Invalid"
    by blast
  from user_create_rejected_email [of "model_field storage" payload ee manager storage] ee kind
  show ?thesis by blast
qed

theorem duplicate_email_rejected_witness:
  "[''email'' \<mapsto> ''test@gmail.com'', ''password'' \<mapsto> ''testpw1'', ''name'' \<mapsto> ''test_name'']
      ''email'' = Some ''test@gmail.com''
   \<and> Some (strip ''test@gmail.com'') \<in> set (map (\<lambda>u. u ''email'') [sample_user])
   \<and> fst (create_user_view (create_user sample_make_password) (model_field [sample_user])
        [''email'' \<mapsto> ''test@gmail.com'', ''password'' \<mapsto> ''testpw1'', ''name'' \<mapsto> ''test_name'']
        [sample_user]) = []
   \<and> status_code (fst (snd (create_user_view (create_user sample_make_password)
        (model_field [sample_user])
        [''email'' \<mapsto> ''test@gmail.com'', ''password'' \<mapsto> ''testpw1'', ''name'' \<mapsto> ''test_name'']
        [sample_user]))) = 400
   \<and> data (fst (snd (create_user_view (create_user sample_make_password)
        (model_field [sample_user])
        [''email'' \<mapsto> ''test@gmail.com'', ''password'' \<mapsto> ''testpw1'', ''name'' \<mapsto> ''test_name'']
        [sample_user]))) ''email'' = Some (FieldError Invalid)
   \<and> snd (snd (create_user_view (create_user sample_make_password) (model_field [sample_user])
        [''email'' \<mapsto> ''test@gmail.com'', ''password'' \<mapsto> ''testpw1'', ''name'' \<mapsto> ''test_name'']
        [sample_user])) = [sample_user]"
proof -
  have ev: "create_user_view (create_user sample_make_password) (model_field [sample_user])
        [''email'' \<mapsto> ''test@gmail.com'', ''password'' \<mapsto> ''testpw1'', ''name'' \<mapsto> ''test_name'']
        [sample_user]
      = ([], \<lparr>status_code = 400, data = [''email'' \<mapsto> FieldError Invalid]\<rparr>, [sample_user])"
    by (simp add: create_user_view_def to_internal_value_def user_fields_unfold
          field_error_data_def Meta_extra_kwargs_def model_field_def CharField_def strip_def
          is_space_def sample_user_def prohibit_null_characters_def)
  from duplicate_email_rejected [of
      "[''email'' \<mapsto> ''test@gmail.com'', ''password'' \<mapsto> ''testpw1'', ''name'' \<mapsto> ''test_name'']"
      "''test@gmail.com''" "[sample_user]" "create_user sample_make_password"]
  show ?thesis
    unfolding ev by (simp add: strip_def is_space_def sample_user_def)
qed

subsection \<open>The profile\<close>

text \<open>
  C8. A profile request without an authenticated caller is answered 401, whatever the
  method. A GET by an authenticated caller is answered 200 with the caller's attributes
  restricted to \<open>email\<close> and \<open>name\<close>: for a stored user with both, exactly the dictionary
  of its email and its name. (A model gives no write-only field; the model is not among
  the sources, hence the hypothesis.)
\<close>

theorem me_view_profile:
  "me_view mf method None payload = (\<lparr>status_code = 401, data = Map.empty\<rparr>, None)
   \<and> (\<not> write_only (mf ''email'') \<and> \<not> write_only (mf ''name'') \<longrightarrow>
        me_view mf GET (Some instance) payload
          = (\<lparr>status_code = 200, data = text_data (instance |` {''email'', ''name''})\<rparr>, None))
   \<and> (\<not> write_only (mf ''email'') \<and> \<not> write_only (mf ''name'')
        \<and> instance ''email'' = Some e \<and> instance ''name'' = Some n \<longrightarrow>
        me_view mf GET (Some instance) payload
          = (\<lparr>status_code = 200, data = [''email'' \<mapsto> Text e, ''name'' \<mapsto> Text n]\<rparr>, None))"
proof (intro conjI impI)
  show "me_view mf method None payload = (\<lparr>status_code = 401, data = Map.empty\<rparr>, None)"
    by (simp add: me_view_def)
next
  assume "\<not> write_only (mf ''email'') \<and> \<not> write_only (mf ''name'')"
  then show "me_view mf GET (Some instance) payload
          = (\<lparr>status_code = 200, data = text_data (instance |` {''email'', ''name''})\<rparr>, None)"
    by (simp add: me_view_def representation_email_name)
next
  assume a: "\<not> write_only (mf ''email'') \<and> \<not> write_only (mf ''name'')
        \<and> instance ''email'' = Some e \<and> instance ''name'' = Some n"
  then have "text_data (instance |` {''email'', ''name''}) = [''email'' \<mapsto> Text e, ''name'' \<mapsto> Text n]"
    by (intro ext) (simp add: text_data_def restrict_map_def)
  with a show "me_view mf GET (Some instance) payload
          = (\<lparr>status_code = 200, data = [''email'' \<mapsto> Text e, ''name'' \<mapsto> Text n]\<rparr>, None)"
    by (simp add: me_view_def representation_email_name)
qed

theorem me_view_profile_witness:
  "me_view (model_field [sample_user]) GET None Map.empty
     = (\<lparr>status_code = 401, data = Map.empty\<rparr>, None)
   \<and> \<not> write_only (model_field [sample_user] ''email'')
   \<and> \<not> write_only (model_field [sample_user] ''name'')
   \<and> sample_user ''email'' = Some ''test@gmail.com''
   \<and> sample_user ''name'' = Some ''Testname''
   \<and> me_view (model_field [sample_user]) GET (Some sample_user) Map.empty
     = (\<lparr>status_code = 200,
         data = [''email'' \<mapsto> Text ''test@gmail.com'', ''name'' \<mapsto> Text ''Testname'']\<rparr>, None)"
  using me_view_profile [of "model_field [sample_user]" GET Map.empty sample_user
      "''test@gmail.com''" "''Testname''"]
  by (simp add: model_field_def CharField_def sample_user_def text_data_upd text_data_empty)

text \<open>
  C5. The partial update of the test suite, \<open>{'name': 'new name', 'password':
  'newpassword1'}\<close> by the user test@gmail.com. The request passes validation and is
  answered 200, and the new name is saved; but the inherited \<open>update\<close> assigns the
  validated password to the password attribute as it is, so the saved password is the
  plaintext \<open>newpassword1\<close> and not a hash, and \<open>check_password\<close> refuses it. The claim,
  and the test \<open>test_update_user_profile\<close>, ask for a hashed password that verifies.
\<close>

theorem update_stores_plaintext:
  "to_internal_value True (UserSerializer_fields (model_field [sample_user]))
       [''name'' \<mapsto> ''new name'', ''password'' \<mapsto> ''newpassword1'']
     = Inr [(''password'', ''newpassword1''), (''name'', ''new name'')]
   \<and> me_view (model_field [sample_user]) PATCH (Some sample_user)
       [''name'' \<mapsto> ''new name'', ''password'' \<mapsto> ''newpassword1'']
     = (\<lparr>status_code = 200,
         data = [''email'' \<mapsto> Text ''test@gmail.com'', ''name'' \<mapsto> Text ''new name'']\<rparr>,
        Some (update sample_user [(''password'', ''newpassword1''), (''name'', ''new name'')]))
   \<and> update sample_user [(''password'', ''newpassword1''), (''name'', ''new name'')] ''name''
     = Some ''new name''
   \<and> update sample_user [(''password'', ''newpassword1''), (''name'', ''new name'')] ''password''
     = Some ''newpassword1''
   \<and> \<not> user_check_password sample_check_password
         (update sample_user [(''password'', ''newpassword1''), (''name'', ''new name'')])
         ''newpassword1''"
proof -
  have v: "to_internal_value True (UserSerializer_fields (model_field [sample_user]))
       [''name'' \<mapsto> ''new name'', ''password'' \<mapsto> ''newpassword1'']
     = Inr [(''password'', ''newpassword1''), (''name'', ''new name'')]"
    by (simp add: to_internal_value_def user_fields_unfold Meta_extra_kwargs_def model_field_def
          CharField_def strip_def is_space_def prohibit_null_characters_def)
  have w: "\<not> write_only (model_field [sample_user] ''email'')"
    "\<not> write_only (model_field [sample_user] ''name'')"
    by (simp_all add: model_field_def CharField_def)
  have r: "text_data (update sample_user [(''password'', ''newpassword1''), (''name'', ''new name'')]
             |` {''email'', ''name''})
           = [''email'' \<mapsto> Text ''test@gmail.com'', ''name'' \<mapsto> Text ''new name'']"
    by (rule ext) (simp add: text_data_def restrict_map_def update_def sample_user_def)
  have m: "me_view (model_field [sample_user]) PATCH (Some sample_user)
       [''name'' \<mapsto> ''new name'', ''password'' \<mapsto> ''newpassword1'']
     = (\<lparr>status_code = 200,
         data = [''email'' \<mapsto> Text ''test@gmail.com'', ''name'' \<mapsto> Text ''new name'']\<rparr>,
        Some (update sample_user [(''password'', ''newpassword1''), (''name'', ''new name'')]))"
    unfolding me_view_def v by (simp add: Let_def representation_email_name [OF w] r)
  have u: "update sample_user [(''password'', ''newpassword1''), (''name'', ''new name'')] ''name''
     = Some ''new name''"
    "update sample_user [(''password'', ''newpassword1''), (''name'', ''new name'')] ''password''
     = Some ''newpassword1''"
    by (simp_all add: update_def)
  have c: "\<not> user_check_password sample_check_password
         (update sample_user [(''password'', ''newpassword1''), (''name'', ''new name'')])
         ''newpassword1''"
    by (simp add: user_check_password_def u sample_check_password_def sample_make_password_def)
  from v m u c show ?thesis by simp
qed

end
